theory Spec2Isabelle
  imports Complex_Main "HOL-Library.AList"
begin

section \<open>Reinforcement drawing functions\<close>

text \<open>
  A shallow embedding of \<^verbatim>\<open>ReinforcementDrawing/ReinforcementDrawingfunc.py\<close>.
  Python floats are modelled by \<^typ>\<open>real\<close>: rounding error, infinities and NaN are
  outside the model. Python integers are \<^typ>\<open>int\<close>, strings are \<^typ>\<open>string\<close>.
\<close>

subsection \<open>Python built-ins\<close>

text \<open>
  \<^verbatim>\<open>round(x)\<close> of a float is the nearest integer, a tie going to the even neighbour.
\<close>

definition py_round :: "real \<Rightarrow> int" where
  "py_round r =
     (let f = \<lfloor>r\<rfloor>; d = r - of_int f
      in if d < 1 / 2 then f
         else if 1 / 2 < d then f + 1
         else if even f then f else f + 1)"

text \<open>\<^verbatim>\<open>str(i)\<close> and \<^verbatim>\<open>"{}".format(i)\<close> of an integer: its decimal digits.\<close>

definition digit_char :: "nat \<Rightarrow> char" where
  "digit_char n = ''0123456789'' ! n"

fun str_nat :: "nat \<Rightarrow> string" where
  "str_nat n =
     (if n < 10 then [digit_char n] else str_nat (n div 10) @ [digit_char (n mod 10)])"

definition str_int :: "int \<Rightarrow> string" where
  "str_int i = (if i < 0 then CHR ''-'' # str_nat (nat (- i)) else str_nat (nat i))"

text \<open>
  \<^verbatim>\<open>"{}".format(b)\<close> of a \<^verbatim>\<open>bool\<close> prints the words \<^verbatim>\<open>True\<close> and \<^verbatim>\<open>False\<close>, not
  digits.
\<close>

definition str_bool :: "bool \<Rightarrow> string" where
  "str_bool b = (if b then ''True'' else ''False'')"

text \<open>The Python exceptions that this module's own statements can raise.\<close>

datatype py_error = ZeroDivisionError | IndexError | UnboundLocalError

subsection \<open>Vectors and working planes\<close>

text \<open>
  \<^verbatim>\<open>FreeCAD.Vector(x, y, z)\<close>, and the three attributes of a \<^verbatim>\<open>WorkingPlane.plane\<close> that
  this module writes and reads.
\<close>

datatype vector = Vector (vec_x: real) (vec_y: real) (vec_z: real)

record plane =
  axis :: vector
  plane_u :: vector
  plane_v :: vector

subsection \<open>getViewPlane\<close>

text \<open>
  The function prints to the error console and returns \<^verbatim>\<open>None\<close> for a view it does not
  know; the model returns the lines printed together with the optional plane.
\<close>

definition invalid_view_message :: string where
  \<open>invalid_view_message =
     ''Invalid/Unsupported view. Valid views are: "Front", "Rear", "Left", "Right" "Top" and "Bottom".''
     @ [CHR 0x0A]\<close>

definition getViewPlane :: "string \<Rightarrow> string list \<times> plane option" where
  "getViewPlane view =
     (if view = ''Front'' then
        ([], Some \<lparr>axis = Vector 0 (- 1) 0, plane_u = Vector 1 0 0, plane_v = Vector 0 0 (- 1)\<rparr>)
      else if view = ''Rear'' then
        ([], Some \<lparr>axis = Vector 0 1 0, plane_u = Vector (- 1) 0 0, plane_v = Vector 0 0 (- 1)\<rparr>)
      else if view = ''Left'' then
        ([], Some \<lparr>axis = Vector (- 1) 0 0, plane_u = Vector 0 (- 1) 0, plane_v = Vector 0 0 (- 1)\<rparr>)
      else if view = ''Right'' then
        ([], Some \<lparr>axis = Vector 1 0 0, plane_u = Vector 0 1 0, plane_v = Vector 0 0 (- 1)\<rparr>)
      else if view = ''Top'' then
        ([], Some \<lparr>axis = Vector 0 0 1, plane_u = Vector 1 0 0, plane_v = Vector 0 (- 1) 0\<rparr>)
      else if view = ''Bottom'' then
        ([], Some \<lparr>axis = Vector 0 0 (- 1), plane_u = Vector 1 0 0, plane_v = Vector 0 1 0\<rparr>)
      else ([invalid_view_message], None))"

subsection \<open>ElementTree elements\<close>

text \<open>
  An \<^verbatim>\<open>xml.etree.ElementTree.Element\<close>: its tag, its attribute dictionary (in insertion
  order) and its children. \<^verbatim>\<open>e.set(k, v)\<close> and \<^verbatim>\<open>e.append(c)\<close> mutate the element; the
  model returns the new element.
\<close>

datatype svg = Element (tag: string) (attrib: "(string \<times> string) list") (children: "svg list")

definition set_attrib :: "svg \<Rightarrow> string \<Rightarrow> string \<Rightarrow> svg" where
  "set_attrib e k v = Element (tag e) (AList.update k v (attrib e)) (children e)"

definition append_child :: "svg \<Rightarrow> svg \<Rightarrow> svg" where
  "append_child e c = Element (tag e) (attrib e) (children e @ [c])"

text \<open>
  The elements below an element, in document order: what the path \<^verbatim>\<open>.//\<close> ranges over.
\<close>

fun descendants :: "svg \<Rightarrow> svg list" where
  "descendants (Element t a cs) = concat (map (\<lambda>c. c # descendants c) cs)"

text \<open>\<^verbatim>\<open>e.find('.//path[@d="..."]')\<close>: the first \<^verbatim>\<open>path\<close> below \<open>e\<close> whose \<^verbatim>\<open>d\<close> is the string.\<close>

definition find_path_d :: "svg \<Rightarrow> string \<Rightarrow> svg option" where
  "find_path_d e d =
     find (\<lambda>c. tag c = ''path'' \<and> map_of (attrib c) ''d'' = Some d) (descendants e)"

subsection \<open>Geometry read from the CAD kernel\<close>

text \<open>
  What the module reads of an edge: \<^verbatim>\<open>DraftGeomUtils.geomType(edge)\<close>, the points of
  \<^verbatim>\<open>edge.Vertexes[0]\<close> and \<^verbatim>\<open>edge.Vertexes[1]\<close>, the tangent at
  \<^verbatim>\<open>edge.FirstParameter\<close> and the tangent a tenth of the parameter range further on.
  Every edge of the model has two end points.
\<close>

record edge =
  geomType :: string
  Vertex0 :: vector
  Vertex1 :: vector
  tangent_first :: vector
  tangent_tenth :: vector

text \<open>A wire: the points of its \<^verbatim>\<open>Vertexes\<close> and its \<^verbatim>\<open>Edges\<close>.\<close>

record wire =
  Vertexes :: "vector list"
  Edges :: "edge list"

text \<open>
  The attributes of a rebar object that the module reads. \<open>Diameter_Value\<close> is
  \<^verbatim>\<open>rebar.Diameter.Value\<close> and \<open>Diameter_str\<close> is \<^verbatim>\<open>str(rebar.Diameter)\<close>; \<open>Direction\<close> is
  \<open>None\<close> when the object has no such attribute; \<open>Base_type\<close> is
  \<^verbatim>\<open>Draft.getType(rebar.Base)\<close>, \<open>Base_normal\<close> is \<^verbatim>\<open>DraftGeomUtils.getNormal(rebar.Base.Shape)\<close>,
  \<open>Base_minus_z\<close> is \<^verbatim>\<open>rebar.Base.Placement.Rotation.multVec(Vector(0, 0, -1))\<close> and
  \<open>Wire0\<close> is \<^verbatim>\<open>rebar.Base.Shape.Wires[0]\<close>. Placements are of an arbitrary type \<open>'p\<close>.
\<close>

record 'p rebar =
  Name :: string
  RebarShape :: string
  Diameter_Value :: real
  Diameter_str :: string
  Rounding :: real
  Amount :: int
  Direction :: "vector option"
  Base_type :: string
  Base_normal :: vector
  Base_minus_z :: vector
  Wire0 :: wire
  PlacementList :: "'p list"

text \<open>
  The services of FreeCAD (and Python's float formatting) that the module calls, as
  parameters: \<open>project\<close> and \<open>angle\<close> are those of \<^verbatim>\<open>DraftVecUtils\<close>; \<open>Length\<close>,
  \<open>getAngle\<close>, \<open>cross\<close> and \<open>normalize\<close> are methods of a vector; \<open>filletWire\<close> is that of
  \<^verbatim>\<open>DraftGeomUtils\<close>; \<open>sortEdges\<close> is \<^verbatim>\<open>Part.__sortEdges__\<close>; \<open>placeWire p w\<close> is the
  copy of \<open>w\<close> whose placement is \<^verbatim>\<open>p.multiply(w.Placement)\<close>; \<open>boundBoxPoint rs s i\<close> is
  \<^verbatim>\<open>getPoint(i)\<close> of the bounding box of all rebar shapes and the structure's shape;
  \<open>getSVG_rebar\<close> is the parsed \<^verbatim>\<open>Draft.getSVG\<close> of a rebar and \<open>getSVG_structure\<close> the
  parsed group \<^verbatim>\<open><g id="structure">\<close> around the \<^verbatim>\<open>Draft.getSVG\<close> of the structure;
  \<open>float_str\<close> is \<^verbatim>\<open>"{}".format\<close> of a float.
\<close>

record ('p, 's) freecad =
  project :: "vector \<Rightarrow> vector \<Rightarrow> vector"
  Length :: "vector \<Rightarrow> real"
  getAngle :: "vector \<Rightarrow> vector \<Rightarrow> real"
  cross :: "vector \<Rightarrow> vector \<Rightarrow> vector"
  angle :: "vector \<Rightarrow> vector \<Rightarrow> vector \<Rightarrow> real"
  isNull :: "vector \<Rightarrow> bool"
  normalize :: "vector \<Rightarrow> vector"
  filletWire :: "wire \<Rightarrow> real \<Rightarrow> wire"
  sortEdges :: "edge list \<Rightarrow> edge list"
  placeWire :: "'p \<Rightarrow> wire \<Rightarrow> wire"
  alignToPointAndAxis :: "vector \<Rightarrow> vector \<Rightarrow> real \<Rightarrow> plane"
  boundBoxPoint :: "'p rebar list \<Rightarrow> 's \<Rightarrow> nat \<Rightarrow> vector"
  getSVG_rebar :: "'p rebar \<Rightarrow> plane \<Rightarrow> svg"
  getSVG_structure :: "'s \<Rightarrow> plane \<Rightarrow> svg"
  float_str :: "real \<Rightarrow> string"

text \<open>
  The functions imported from the module \<^verbatim>\<open>SVGfunc\<close>, whose source is not part of the
  files at hand: parameters as well. \<open>getSVGTextElement\<close> takes the text, the position, the
  font family and size, then the optional sixth positional argument and the optional
  keyword \<^verbatim>\<open>dominant_baseline\<close>.
\<close>

record svgfunc =
  getSVGRootElement :: svg
  getPointSVG :: "vector \<Rightarrow> real \<Rightarrow> svg"
  isPointInSVG :: "vector \<Rightarrow> svg \<Rightarrow> bool"
  getLineSVG :: "vector \<Rightarrow> vector \<Rightarrow> svg"
  isLineInSVG :: "vector \<Rightarrow> vector \<Rightarrow> svg \<Rightarrow> bool"
  getSVGTextElement ::
    "string \<Rightarrow> real \<Rightarrow> real \<Rightarrow> string \<Rightarrow> string \<Rightarrow> string option \<Rightarrow> string option \<Rightarrow> svg"
  getSVGPathElement :: "string \<Rightarrow> string \<Rightarrow> string \<Rightarrow> svg"
  getArrowMarkerElement :: "string \<Rightarrow> string \<Rightarrow> svg"

text \<open>The constant \<^verbatim>\<open>SVG_POINT_DIA_FACTOR\<close> of \<^verbatim>\<open>config.py\<close> is a parameter \<open>fac\<close> below.\<close>

subsection \<open>getRebarsSpanAxis and getProjectionToSVGPlane\<close>

definition getRebarsSpanAxis :: "('p, 's) freecad \<Rightarrow> 'p rebar \<Rightarrow> vector" where
  "getRebarsSpanAxis K rebar =
     (let ax = (if Base_type rebar = ''Wire'' then Base_normal rebar else Base_minus_z rebar)
      in case Direction rebar of
           None \<Rightarrow> ax
         | Some d \<Rightarrow> if \<not> isNull K d then normalize K d else ax)"

definition getProjectionToSVGPlane :: "('p, 's) freecad \<Rightarrow> vector \<Rightarrow> plane \<Rightarrow> vector" where
  "getProjectionToSVGPlane K vec pl =
     (let nx = project K vec (plane_u pl);
          lx = Length K nx;
          lx = (if \<bar>getAngle K nx (plane_u pl)\<bar> > 0.1 then - lx else lx);
          ny = project K vec (plane_v pl);
          ly = Length K ny;
          ly = (if \<bar>getAngle K ny (plane_v pl)\<bar> > 0.1 then - ly else ly)
      in Vector lx ly 0)"

subsection \<open>getLineDimensionsData\<close>

text \<open>
  The second branch divides by \<^verbatim>\<open>p2.y - p1.y\<close>, which is zero exactly when the two points
  coincide: Python raises \<^verbatim>\<open>ZeroDivisionError\<close> there.
\<close>

record dimension_data =
  dimension_svg :: svg
  dimension_line_horizontal :: bool

definition getLineDimensionsData ::
  "('p, 's) freecad \<Rightarrow> svgfunc \<Rightarrow> vector \<Rightarrow> vector \<Rightarrow> string \<Rightarrow> real \<Rightarrow> real \<Rightarrow> real \<Rightarrow> real
     \<Rightarrow> py_error + dimension_data" where
  "getLineDimensionsData K F p1 p2 dimension_text h_dim_x h_dim_y v_dim_x v_dim_y =
     (let dimension = Element ''g'' [] []
      in if \<bar>vec_y p2 - vec_y p1\<bar> < \<bar>vec_x p2 - vec_x p1\<bar> then
           (let x_cord = v_dim_x;
                y_cord = (x_cord - vec_x p1) * (vec_y p2 - vec_y p1) / (vec_x p2 - vec_x p1)
                         + vec_y p1;
                dimension_line = getSVGPathElement F
                   (''M'' @ float_str K x_cord @ '' '' @ float_str K y_cord @ '' V''
                    @ float_str K v_dim_y)
                   ''url(#start_arrow)'' ''stroke:#000000'';
                dimension_label = getSVGTextElement F dimension_text v_dim_x v_dim_y
                   ''DejaVu Sans'' ''10px'' (Some ''middle'') None
            in Inr \<lparr>dimension_svg =
                       append_child (append_child dimension dimension_line) dimension_label,
                     dimension_line_horizontal = False\<rparr>)
         else if vec_y p2 - vec_y p1 = 0 then Inl ZeroDivisionError
         else
           (let y_cord = h_dim_y;
                x_cord = (y_cord - vec_y p1) * (vec_x p2 - vec_x p1) / (vec_y p2 - vec_y p1)
                         + vec_x p1;
                dimension_line = getSVGPathElement F
                   (''M'' @ float_str K x_cord @ '' '' @ float_str K y_cord @ '' H''
                    @ float_str K h_dim_x)
                   ''url(#start_arrow)'' ''stroke:#000000'';
                dimension_label = getSVGTextElement F dimension_text h_dim_x h_dim_y
                   ''DejaVu Sans'' ''10px'' None (Some ''central'')
            in Inr \<lparr>dimension_svg =
                       append_child (append_child dimension dimension_line) dimension_label,
                     dimension_line_horizontal = True\<rparr>))"

subsection \<open>getRoundCornerSVG and isRoundCornerInSVG\<close>

text \<open>
  The format \<^verbatim>\<open>"M{x1} {y1} A{radius} {radius} 0 0 {flag_sweep} {x2} {y2}"\<close>; the rounded
  numbers are integers, the flag is whatever text it formats to.
\<close>

definition round_corner_d :: "int \<Rightarrow> int \<Rightarrow> int \<Rightarrow> string \<Rightarrow> int \<Rightarrow> int \<Rightarrow> string" where
  "round_corner_d x1 y1 radius flag_sweep x2 y2 =
     ''M'' @ str_int x1 @ '' '' @ str_int y1 @ '' A'' @ str_int radius @ '' '' @ str_int radius
     @ '' 0 0 '' @ flag_sweep @ '' '' @ str_int x2 @ '' '' @ str_int y2"

text \<open>\<^verbatim>\<open>int(DraftVecUtils.angle(t1, t2, view_plane.axis) < 0)\<close>\<close>

definition sweep_flag :: "('p, 's) freecad \<Rightarrow> edge \<Rightarrow> plane \<Rightarrow> int" where
  "sweep_flag K e view_plane =
     (let t1 = tangent_first e; t2 = tangent_tenth e
      in if angle K t1 t2 (axis view_plane) < 0 then 1 else 0)"

definition getRoundCornerSVG :: "('p, 's) freecad \<Rightarrow> edge \<Rightarrow> real \<Rightarrow> plane \<Rightarrow> svg" where
  "getRoundCornerSVG K e radius view_plane =
     (let p1 = getProjectionToSVGPlane K (Vertex0 e) view_plane;
          p2 = getProjectionToSVGPlane K (Vertex1 e) view_plane;
          flag_sweep = sweep_flag K e view_plane;
          el = Element ''path'' [] [];
          el = set_attrib el ''style'' ''stroke:#000000;fill:none'';
          el = set_attrib el ''d''
                 (round_corner_d (py_round (vec_x p1)) (py_round (vec_y p1)) (py_round radius)
                    (str_int flag_sweep) (py_round (vec_x p2)) (py_round (vec_y p2)))
      in el)"

text \<open>
  In the second query the flag is \<^verbatim>\<open>not flag_sweep\<close>, a \<^verbatim>\<open>bool\<close>, which \<^verbatim>\<open>format\<close> prints
  as a word.
\<close>

definition isRoundCornerInSVG :: "('p, 's) freecad \<Rightarrow> edge \<Rightarrow> real \<Rightarrow> plane \<Rightarrow> svg \<Rightarrow> bool" where
  "isRoundCornerInSVG K e radius view_plane tree =
     (let p1 = getProjectionToSVGPlane K (Vertex0 e) view_plane;
          p2 = getProjectionToSVGPlane K (Vertex1 e) view_plane;
          flag_sweep = sweep_flag K e view_plane
      in if find_path_d tree
              (round_corner_d (py_round (vec_x p1)) (py_round (vec_y p1)) (py_round radius)
                 (str_int flag_sweep) (py_round (vec_x p2)) (py_round (vec_y p2))) \<noteq> None
         then True
         else if find_path_d tree
              (round_corner_d (py_round (vec_x p2)) (py_round (vec_y p2)) (py_round radius)
                 (str_bool (flag_sweep = 0)) (py_round (vec_x p1)) (py_round (vec_y p1))) \<noteq> None
         then True
         else False)"

subsection \<open>Loops that may raise\<close>

text \<open>
  A \<^verbatim>\<open>for\<close> loop whose body may raise: the state is threaded through the items, and the
  first exception ends the loop.
\<close>

fun for_each :: "('s \<Rightarrow> 'a \<Rightarrow> py_error + 's) \<Rightarrow> 's \<Rightarrow> 'a list \<Rightarrow> py_error + 's" where
  "for_each body st [] = Inr st"
| "for_each body st (x # xs) =
     (case body st x of Inl e \<Rightarrow> Inl e | Inr st' \<Rightarrow> for_each body st' xs)"

text \<open>\<^verbatim>\<open>w.Vertexes[i].Point\<close>, which raises \<^verbatim>\<open>IndexError\<close> out of range.\<close>

definition vertex_point :: "wire \<Rightarrow> nat \<Rightarrow> py_error + vector" where
  "vertex_point w i = (if i < length (Vertexes w) then Inr (Vertexes w ! i) else Inl IndexError)"

text \<open>
  One step of the loops that track \<^verbatim>\<open>min_x, min_y, max_x, max_y\<close> over projected points.
\<close>

definition extend_extent :: "real \<times> real \<times> real \<times> real \<Rightarrow> vector \<Rightarrow> real \<times> real \<times> real \<times> real" where
  "extend_extent ext point =
     (case ext of (min_x, min_y, max_x, max_y) \<Rightarrow>
        (min min_x (vec_x point), min min_y (vec_y point),
         max max_x (vec_x point), max max_y (vec_y point)))"

subsection \<open>getStirrupSVGPoints and getStirrupSVGData\<close>

definition getStirrupSVGPoints ::
  "('p, 's) freecad \<Rightarrow> wire \<Rightarrow> string \<Rightarrow> plane \<Rightarrow> py_error + vector \<times> vector" where
  "getStirrupSVGPoints K stirrup_wire stirrup_alignment view_plane =
     (case Vertexes stirrup_wire of
        [] \<Rightarrow> Inl IndexError
      | first # others \<Rightarrow>
          (let first_point = getProjectionToSVGPlane K first view_plane;
               ext = foldl (\<lambda>ext vertex. extend_extent ext (getProjectionToSVGPlane K vertex view_plane))
                       (vec_x first_point, vec_y first_point, vec_x first_point, vec_y first_point)
                       others
           in case ext of (min_x, min_y, max_x, max_y) \<Rightarrow>
                if stirrup_alignment = ''V'' then
                  (let x_cord = (min_x + max_x) / 2
                   in Inr (Vector x_cord min_y 0, Vector x_cord max_y 0))
                else
                  (let y_cord = (min_y + max_y) / 2
                   in Inr (Vector min_x y_cord 0, Vector max_x y_cord 0))))"

text \<open>The dictionary that a shape builder returns.\<close>

record rebar_data =
  data_svg :: svg
  visibility :: bool

text \<open>
  The body of the loop over the sorted edges of a stirrup seen face-on; the state is the
  pair of \<^verbatim>\<open>stirrup_svg\<close> and \<^verbatim>\<open>is_rebar_visible\<close>. An edge that is neither a line nor a
  circle is passed over.
\<close>

definition stirrup_edge_step ::
  "('p, 's) freecad \<Rightarrow> svgfunc \<Rightarrow> 'p rebar \<Rightarrow> plane \<Rightarrow> svg \<Rightarrow> svg \<times> bool \<Rightarrow> edge \<Rightarrow> svg \<times> bool" where
  "stirrup_edge_step K F rebar view_plane rebars_svg st e =
     (case st of (stirrup_svg, is_rebar_visible) \<Rightarrow>
        if geomType e = ''Line'' then
          (let p1 = getProjectionToSVGPlane K (Vertex0 e) view_plane;
               p2 = getProjectionToSVGPlane K (Vertex1 e) view_plane;
               edge_svg = getLineSVG F p1 p2
           in if is_rebar_visible \<or> \<not> isLineInSVG F p1 p2 rebars_svg
              then (append_child stirrup_svg edge_svg, True)
              else (stirrup_svg, is_rebar_visible))
        else if geomType e = ''Circle'' then
          (let edge_svg = getRoundCornerSVG K e (Rounding rebar * Diameter_Value rebar) view_plane
           in if is_rebar_visible
                 \<or> \<not> isRoundCornerInSVG K e (Rounding rebar * Diameter_Value rebar) view_plane rebars_svg
              then (append_child stirrup_svg edge_svg, True)
              else (stirrup_svg, is_rebar_visible))
        else (stirrup_svg, is_rebar_visible))"

text \<open>The body of the loop over the placements of a stirrup not seen face-on.\<close>

definition stirrup_placement_step ::
  "('p, 's) freecad \<Rightarrow> svgfunc \<Rightarrow> plane \<Rightarrow> svg \<Rightarrow> wire \<Rightarrow> string \<Rightarrow> svg \<times> bool \<Rightarrow> 'p
     \<Rightarrow> py_error + svg \<times> bool" where
  "stirrup_placement_step K F view_plane rebars_svg basewire stirrup_alignment st placement =
     (case st of (stirrup_svg, is_rebar_visible) \<Rightarrow>
        (let wire = placeWire K placement basewire
         in case getStirrupSVGPoints K wire stirrup_alignment view_plane of
              Inl err \<Rightarrow> Inl err
            | Inr (p1, p2) \<Rightarrow>
                (let rebar_svg = getLineSVG F p1 p2;
                     is_rebar_visible =
                       (if \<not> isLineInSVG F p1 p2 rebars_svg then True else is_rebar_visible)
                 in if is_rebar_visible
                    then Inr (append_child stirrup_svg rebar_svg, is_rebar_visible)
                    else Inr (stirrup_svg, is_rebar_visible))))"

definition getStirrupSVGData ::
  "('p, 's) freecad \<Rightarrow> svgfunc \<Rightarrow> 'p rebar \<Rightarrow> plane \<Rightarrow> svg \<Rightarrow> py_error + rebar_data" where
  "getStirrupSVGData K F rebar view_plane rebars_svg =
     (let stirrup_svg = Element ''g'' [(''id'', Name rebar)] [];
          is_rebar_visible = False;
          drawing_plane_normal = axis view_plane;
          stirrup_span_axis = getRebarsSpanAxis K rebar
      in if py_round (Length K (cross K drawing_plane_normal stirrup_span_axis)) = 0 then
           (let edges = sortEdges K
                  (Edges (filletWire K (Wire0 rebar) (Rounding rebar * Diameter_Value rebar)))
            in case foldl (stirrup_edge_step K F rebar view_plane rebars_svg)
                       (stirrup_svg, is_rebar_visible) edges of
                 (stirrup_svg, is_rebar_visible) \<Rightarrow>
                   Inr \<lparr>data_svg = stirrup_svg, visibility = is_rebar_visible\<rparr>)
         else
           (let stirrup_alignment =
                  (if py_round (Length K (cross K stirrup_span_axis (plane_u view_plane))) = 0
                   then ''V'' else ''H'');
                basewire = filletWire K (Wire0 rebar) (Rounding rebar * Diameter_Value rebar)
            in case for_each
                      (stirrup_placement_step K F view_plane rebars_svg basewire stirrup_alignment)
                      (stirrup_svg, is_rebar_visible) (PlacementList rebar) of
                 Inl err \<Rightarrow> Inl err
               | Inr (stirrup_svg, is_rebar_visible) \<Rightarrow>
                   Inr \<lparr>data_svg = stirrup_svg, visibility = is_rebar_visible\<rparr>))"

subsection \<open>getUShapeRebarSVGData\<close>

text \<open>
  The choice of \<^verbatim>\<open>edge_svg\<close> and the update of \<^verbatim>\<open>is_rebar_visible\<close> for a line edge and
  for a circle edge: the same statements in the face-on branch and in the other branch.
\<close>

definition ushape_line_svg ::
  "('p, 's) freecad \<Rightarrow> svgfunc \<Rightarrow> real \<Rightarrow> 'p rebar \<Rightarrow> svg \<Rightarrow> vector \<Rightarrow> vector \<Rightarrow> bool \<Rightarrow> svg \<times> bool" where
  "ushape_line_svg K F fac rebar rebars_svg p1 p2 is_rebar_visible =
     (if py_round (vec_x p1) = py_round (vec_x p2) \<and> py_round (vec_y p1) = py_round (vec_y p2)
      then (getPointSVG F p1 (fac * Diameter_Value rebar), is_rebar_visible)
      else (getLineSVG F p1 p2,
            if \<not> isLineInSVG F p1 p2 rebars_svg then True else is_rebar_visible))"

definition ushape_circle_svg ::
  "('p, 's) freecad \<Rightarrow> svgfunc \<Rightarrow> 'p rebar \<Rightarrow> plane \<Rightarrow> svg \<Rightarrow> edge \<Rightarrow> vector \<Rightarrow> vector \<Rightarrow> bool
     \<Rightarrow> svg \<times> bool" where
  "ushape_circle_svg K F rebar view_plane rebars_svg e p1 p2 is_rebar_visible =
     (if py_round (vec_x p1) = py_round (vec_x p2) \<or> py_round (vec_y p1) = py_round (vec_y p2)
      then (getLineSVG F p1 p2,
            if \<not> isLineInSVG F p1 p2 rebars_svg then True else is_rebar_visible)
      else (getRoundCornerSVG K e (Rounding rebar * Diameter_Value rebar) view_plane,
            if \<not> isRoundCornerInSVG K e (Rounding rebar * Diameter_Value rebar) view_plane
                   rebars_svg
            then True else is_rebar_visible))"

text \<open>The body of the loop over the edges in the face-on branch.\<close>

definition ushape_edge_step ::
  "('p, 's) freecad \<Rightarrow> svgfunc \<Rightarrow> real \<Rightarrow> 'p rebar \<Rightarrow> plane \<Rightarrow> svg \<Rightarrow> svg \<times> bool \<Rightarrow> edge
     \<Rightarrow> svg \<times> bool" where
  "ushape_edge_step K F fac rebar view_plane rebars_svg st e =
     (case st of (u_rebar_svg, is_rebar_visible) \<Rightarrow>
        if geomType e = ''Line'' then
          (let p1 = getProjectionToSVGPlane K (Vertex0 e) view_plane;
               p2 = getProjectionToSVGPlane K (Vertex1 e) view_plane
           in case ushape_line_svg K F fac rebar rebars_svg p1 p2 is_rebar_visible of
                (edge_svg, is_rebar_visible) \<Rightarrow>
                  if is_rebar_visible then (append_child u_rebar_svg edge_svg, True)
                  else (u_rebar_svg, is_rebar_visible))
        else if geomType e = ''Circle'' then
          (let p1 = getProjectionToSVGPlane K (Vertex0 e) view_plane;
               p2 = getProjectionToSVGPlane K (Vertex1 e) view_plane
           in case ushape_circle_svg K F rebar view_plane rebars_svg e p1 p2 is_rebar_visible of
                (edge_svg, is_rebar_visible) \<Rightarrow>
                  if is_rebar_visible then (append_child u_rebar_svg edge_svg, is_rebar_visible)
                  else (u_rebar_svg, is_rebar_visible))
        else (u_rebar_svg, is_rebar_visible))"

text \<open>
  The body of the inner loop of the other branch: a line edge is appended also when
  \<^verbatim>\<open>isLineInSVG\<close> does not find it.
\<close>

definition ushape_placed_edge_step ::
  "('p, 's) freecad \<Rightarrow> svgfunc \<Rightarrow> real \<Rightarrow> 'p rebar \<Rightarrow> plane \<Rightarrow> svg \<Rightarrow> svg \<times> bool \<Rightarrow> edge
     \<Rightarrow> svg \<times> bool" where
  "ushape_placed_edge_step K F fac rebar view_plane rebars_svg st e =
     (case st of (u_rebar_svg, is_rebar_visible) \<Rightarrow>
        if geomType e = ''Line'' then
          (let p1 = getProjectionToSVGPlane K (Vertex0 e) view_plane;
               p2 = getProjectionToSVGPlane K (Vertex1 e) view_plane
           in case ushape_line_svg K F fac rebar rebars_svg p1 p2 is_rebar_visible of
                (edge_svg, is_rebar_visible) \<Rightarrow>
                  if is_rebar_visible \<or> \<not> isLineInSVG F p1 p2 rebars_svg
                  then (append_child u_rebar_svg edge_svg, True)
                  else (u_rebar_svg, is_rebar_visible))
        else if geomType e = ''Circle'' then
          (let p1 = getProjectionToSVGPlane K (Vertex0 e) view_plane;
               p2 = getProjectionToSVGPlane K (Vertex1 e) view_plane
           in case ushape_circle_svg K F rebar view_plane rebars_svg e p1 p2 is_rebar_visible of
                (edge_svg, is_rebar_visible) \<Rightarrow>
                  if is_rebar_visible then (append_child u_rebar_svg edge_svg, is_rebar_visible)
                  else (u_rebar_svg, is_rebar_visible))
        else (u_rebar_svg, is_rebar_visible))"

definition getUShapeRebarSVGData ::
  "('p, 's) freecad \<Rightarrow> svgfunc \<Rightarrow> real \<Rightarrow> 'p rebar \<Rightarrow> plane \<Rightarrow> svg \<Rightarrow> rebar_data" where
  "getUShapeRebarSVGData K F fac rebar view_plane rebars_svg =
     (let u_rebar_svg = Element ''g'' [(''id'', Name rebar)] [];
          is_rebar_visible = False;
          drawing_plane_normal = axis view_plane
      in if py_round (Length K (cross K drawing_plane_normal (getRebarsSpanAxis K rebar))) = 0 then
           (let edges = sortEdges K
                  (Edges (filletWire K (Wire0 rebar) (Rounding rebar * Diameter_Value rebar)))
            in case foldl (ushape_edge_step K F fac rebar view_plane rebars_svg)
                       (u_rebar_svg, is_rebar_visible) edges of
                 (u_rebar_svg, is_rebar_visible) \<Rightarrow>
                   \<lparr>data_svg = u_rebar_svg, visibility = is_rebar_visible\<rparr>)
         else
           (let basewire = Wire0 rebar
            in case foldl
                      (\<lambda>st placement.
                         (let wire = placeWire K placement basewire;
                              edges = sortEdges K
                                (Edges (filletWire K wire (Rounding rebar * Diameter_Value rebar)))
                          in foldl (ushape_placed_edge_step K F fac rebar view_plane rebars_svg)
                               st edges))
                      (u_rebar_svg, is_rebar_visible) (PlacementList rebar) of
                 (u_rebar_svg, is_rebar_visible) \<Rightarrow>
                   \<lparr>data_svg = u_rebar_svg, visibility = is_rebar_visible\<rparr>))"

subsection \<open>getStraightRebarSVGData\<close>

record straight_data = rebar_data +
  h_dim_y_offset :: real
  v_dim_x_offset :: real

text \<open>The text \<^verbatim>\<open>"{}\<close>\<open>\<emptyset>\<close>\<^verbatim>\<open>{}".format(rebar.Amount, rebar.Diameter)\<close>; the sign is U+2300 in UTF-8.\<close>

definition dimension_text :: "'p rebar \<Rightarrow> string" where
  "dimension_text rebar =
     str_int (Amount rebar) @ [CHR 0xE2, CHR 0x8C, CHR 0x80] @ Diameter_str rebar"

text \<open>The body of the loop over the placements of a straight rebar not seen face-on.\<close>

definition straight_placement_step ::
  "('p, 's) freecad \<Rightarrow> svgfunc \<Rightarrow> real \<Rightarrow> 'p rebar \<Rightarrow> plane \<Rightarrow> svg \<Rightarrow> wire \<Rightarrow> svg \<times> bool \<Rightarrow> 'p
     \<Rightarrow> py_error + svg \<times> bool" where
  "straight_placement_step K F fac rebar view_plane rebars_svg basewire st placement =
     (case st of (straight_rebar_svg, is_rebar_visible) \<Rightarrow>
        (let wire = placeWire K placement basewire
         in case vertex_point wire 0 of
              Inl err \<Rightarrow> Inl err
            | Inr v0 \<Rightarrow>
               (case vertex_point wire 1 of
                  Inl err \<Rightarrow> Inl err
                | Inr v1 \<Rightarrow>
                   (let p1 = getProjectionToSVGPlane K v0 view_plane;
                        p2 = getProjectionToSVGPlane K v1 view_plane
                    in case
                         (if py_round (vec_x p1) = py_round (vec_x p2)
                             \<and> py_round (vec_y p1) = py_round (vec_y p2)
                          then (getPointSVG F p1 (fac * Diameter_Value rebar),
                                if \<not> (isPointInSVG F p1 rebars_svg
                                       \<or> isPointInSVG F p1 straight_rebar_svg)
                                then True else is_rebar_visible)
                          else (getLineSVG F p1 p2,
                                if \<not> (isLineInSVG F p1 p2 rebars_svg
                                       \<or> isLineInSVG F p1 p2 straight_rebar_svg)
                                then True else is_rebar_visible)) of
                         (rebar_svg, is_rebar_visible) \<Rightarrow>
                           if is_rebar_visible
                           then Inr (append_child straight_rebar_svg rebar_svg, is_rebar_visible)
                           else Inr (straight_rebar_svg, is_rebar_visible)))))"

definition getStraightRebarSVGData ::
  "('p, 's) freecad \<Rightarrow> svgfunc \<Rightarrow> real \<Rightarrow> 'p rebar \<Rightarrow> plane \<Rightarrow> real \<Rightarrow> real \<Rightarrow> real \<Rightarrow> real \<Rightarrow> svg
     \<Rightarrow> py_error + straight_data" where
  "getStraightRebarSVGData K F fac rebar view_plane h_dim_x_off h_dim_y_off v_dim_x_off v_dim_y_off
       rebars_svg =
     (let straight_rebar_svg = Element ''g'' [(''id'', Name rebar)] [];
          is_rebar_visible = False;
          drawing_plane_normal = axis view_plane
      in if py_round (Length K (cross K drawing_plane_normal (getRebarsSpanAxis K rebar))) = 0 then
           (case vertex_point (Wire0 rebar) 0 of
              Inl err \<Rightarrow> Inl err
            | Inr v0 \<Rightarrow>
               (case vertex_point (Wire0 rebar) 1 of
                  Inl err \<Rightarrow> Inl err
                | Inr v1 \<Rightarrow>
                   (let p1 = getProjectionToSVGPlane K v0 view_plane;
                        p2 = getProjectionToSVGPlane K v1 view_plane
                    in case
                         (if py_round (vec_x p1) = py_round (vec_x p2)
                             \<and> py_round (vec_y p1) = py_round (vec_y p2)
                          then (getPointSVG F p1 (fac * Diameter_Value rebar),
                                if \<not> isPointInSVG F p1 rebars_svg then True else is_rebar_visible)
                          else (getLineSVG F p1 p2,
                                if \<not> isLineInSVG F p1 p2 rebars_svg then True else is_rebar_visible)) of
                         (rebar_svg, is_rebar_visible) \<Rightarrow>
                           if is_rebar_visible then
                             (let straight_rebar_svg = append_child straight_rebar_svg rebar_svg
                              in case getLineDimensionsData K F p1 p2 (dimension_text rebar)
                                        h_dim_x_off h_dim_y_off v_dim_x_off v_dim_y_off of
                                   Inl err \<Rightarrow> Inl err
                                 | Inr dimension_data \<Rightarrow>
                                    (let straight_rebar_svg =
                                           append_child straight_rebar_svg (dimension_svg dimension_data)
                                     in if dimension_line_horizontal dimension_data
                                        then Inr \<lparr>data_svg = straight_rebar_svg,
                                                  visibility = is_rebar_visible,
                                                  h_dim_y_offset = h_dim_y_off + 100,
                                                  v_dim_x_offset = v_dim_x_off\<rparr>
                                        else Inr \<lparr>data_svg = straight_rebar_svg,
                                                  visibility = is_rebar_visible,
                                                  h_dim_y_offset = h_dim_y_off,
                                                  v_dim_x_offset = v_dim_x_off + 100\<rparr>))
                           else Inr \<lparr>data_svg = straight_rebar_svg, visibility = is_rebar_visible,
                                     h_dim_y_offset = h_dim_y_off, v_dim_x_offset = v_dim_x_off\<rparr>)))
         else
           (let basewire = Wire0 rebar
            in case for_each (straight_placement_step K F fac rebar view_plane rebars_svg basewire)
                      (straight_rebar_svg, is_rebar_visible) (PlacementList rebar) of
                 Inl err \<Rightarrow> Inl err
               | Inr (straight_rebar_svg, is_rebar_visible) \<Rightarrow>
                   Inr \<lparr>data_svg = straight_rebar_svg, visibility = is_rebar_visible,
                        h_dim_y_offset = h_dim_y_off, v_dim_x_offset = v_dim_x_off\<rparr>))"

subsection \<open>getReinforcementDrawingSVG\<close>

text \<open>
  The argument \<^verbatim>\<open>view_direction\<close>: a vector, a working plane, or an object of another
  type. \<^verbatim>\<open>view_plane\<close> is assigned only for a vector other than zero and for a plane; its
  first use raises \<^verbatim>\<open>UnboundLocalError\<close> otherwise. Negating a float twice gives it back.
\<close>

datatype view_direction = DirectionVector vector | DirectionPlane plane | DirectionOther

definition resolve_view_plane :: "('p, 's) freecad \<Rightarrow> view_direction \<Rightarrow> py_error + plane" where
  "resolve_view_plane K view_dir =
     (case view_dir of
        DirectionVector d \<Rightarrow>
          if d \<noteq> Vector 0 0 0 then Inr (alignToPointAndAxis K (Vector 0 0 0) d 0)
          else Inl UnboundLocalError
      | DirectionPlane pl \<Rightarrow> Inr pl
      | DirectionOther \<Rightarrow> Inl UnboundLocalError)"

definition bound_box_pts :: "plane \<Rightarrow> nat list" where
  "bound_box_pts view_plane =
     (if axis view_plane = Vector 0 (- 1) 0 then [0, 1, 4, 5]
      else if axis view_plane = Vector 0 1 0 then [2, 3, 6, 7]
      else if axis view_plane = Vector 0 0 1 then [0, 1, 2, 3]
      else if axis view_plane = Vector 0 0 (- 1) then [4, 5, 6, 7]
      else if axis view_plane = Vector 1 0 0 then [1, 2, 5, 6]
      else [0, 3, 4, 7])"

text \<open>\<^verbatim>\<open>min_x, min_y, max_x, max_y\<close> of the projected corners \<^verbatim>\<open>pts\<close> of the bounding box.\<close>

definition drawing_extent ::
  "('p, 's) freecad \<Rightarrow> 's \<Rightarrow> 'p rebar list \<Rightarrow> plane \<Rightarrow> real \<times> real \<times> real \<times> real" where
  "drawing_extent K structure rebars_list view_plane =
     (let pts = bound_box_pts view_plane;
          point = getProjectionToSVGPlane K (boundBoxPoint K rebars_list structure (hd pts)) view_plane
      in foldl (\<lambda>ext pt. extend_extent ext
                  (getProjectionToSVGPlane K (boundBoxPoint K rebars_list structure pt) view_plane))
           (vec_x point, vec_y point, vec_x point, vec_y point) (tl pts))"

text \<open>
  The state of the pass over the rebars: the tree \<^verbatim>\<open>rebars_svg\<close>, the list
  \<^verbatim>\<open>visible_rebars\<close> and the two offsets that the loop over the straight rebars updates.
  Each category group is appended to \<^verbatim>\<open>rebars_svg\<close> before its loop runs and is the same
  object afterwards, so what the loop appends to the group shows in \<^verbatim>\<open>rebars_svg\<close> at
  once: the model appends to the last child of \<^verbatim>\<open>rebars_svg\<close>.
\<close>

record 'p drawing_state =
  rebars_svg :: svg
  visible_rebars :: "'p rebar list"
  h_dim_y :: real
  v_dim_x :: real

definition append_to_last_group :: "svg \<Rightarrow> svg \<Rightarrow> svg" where
  "append_to_last_group tree c =
     (if children tree = [] then tree
      else Element (tag tree) (attrib tree)
             (butlast (children tree) @ [append_child (last (children tree)) c]))"

definition new_group :: "string \<Rightarrow> 'p drawing_state \<Rightarrow> 'p drawing_state" where
  "new_group ident st =
     st\<lparr>rebars_svg := append_child (rebars_svg st) (Element ''g'' [(''id'', ident)] [])\<rparr>"

definition stirrup_body ::
  "('p, 's) freecad \<Rightarrow> svgfunc \<Rightarrow> plane \<Rightarrow> 'p drawing_state \<Rightarrow> 'p rebar \<Rightarrow> py_error + 'p drawing_state" where
  "stirrup_body K F view_plane st rebar =
     (case getStirrupSVGData K F rebar view_plane (rebars_svg st) of
        Inl err \<Rightarrow> Inl err
      | Inr rebar_data \<Rightarrow>
          if visibility rebar_data
          then Inr (st\<lparr>rebars_svg := append_to_last_group (rebars_svg st) (data_svg rebar_data),
                       visible_rebars := visible_rebars st @ [rebar]\<rparr>)
          else Inr st)"

definition ushape_body ::
  "('p, 's) freecad \<Rightarrow> svgfunc \<Rightarrow> real \<Rightarrow> plane \<Rightarrow> 'p drawing_state \<Rightarrow> 'p rebar
     \<Rightarrow> py_error + 'p drawing_state" where
  "ushape_body K F fac view_plane st rebar =
     (let rebar_data = getUShapeRebarSVGData K F fac rebar view_plane (rebars_svg st)
      in if visibility rebar_data
         then Inr (st\<lparr>rebars_svg := append_to_last_group (rebars_svg st) (data_svg rebar_data),
                      visible_rebars := visible_rebars st @ [rebar]\<rparr>)
         else Inr st)"

definition straight_body ::
  "('p, 's) freecad \<Rightarrow> svgfunc \<Rightarrow> real \<Rightarrow> plane \<Rightarrow> real \<Rightarrow> real \<Rightarrow> 'p drawing_state \<Rightarrow> 'p rebar
     \<Rightarrow> py_error + 'p drawing_state" where
  "straight_body K F fac view_plane h_dim_x_off v_dim_y_off st rebar =
     (case getStraightRebarSVGData K F fac rebar view_plane h_dim_x_off (h_dim_y st) (v_dim_x st)
             v_dim_y_off (rebars_svg st) of
        Inl err \<Rightarrow> Inl err
      | Inr rebar_data \<Rightarrow>
          if visibility rebar_data
          then Inr (st\<lparr>rebars_svg := append_to_last_group (rebars_svg st) (data_svg rebar_data),
                       h_dim_y := h_dim_y_offset rebar_data,
                       v_dim_x := v_dim_x_offset rebar_data,
                       visible_rebars := visible_rebars st @ [rebar]\<rparr>)
          else Inr st)"

definition helical_body ::
  "('p, 's) freecad \<Rightarrow> plane \<Rightarrow> 'p drawing_state \<Rightarrow> 'p rebar \<Rightarrow> py_error + 'p drawing_state" where
  "helical_body K view_plane st rebar =
     Inr (st\<lparr>rebars_svg := append_to_last_group (rebars_svg st) (getSVG_rebar K rebar view_plane),
             visible_rebars := visible_rebars st @ [rebar]\<rparr>)"

definition custom_body ::
  "('p, 's) freecad \<Rightarrow> plane \<Rightarrow> 'p drawing_state \<Rightarrow> 'p rebar \<Rightarrow> py_error + 'p drawing_state" where
  "custom_body K view_plane st rebar =
     Inr (st\<lparr>rebars_svg := append_to_last_group (rebars_svg st) (getSVG_rebar K rebar view_plane)\<rparr>)"

text \<open>The rebars of one shape, and those of none of the six named shapes.\<close>

definition of_shape :: "string \<Rightarrow> 'p rebar list \<Rightarrow> 'p rebar list" where
  "of_shape shape rebars_list = filter (\<lambda>rebar. RebarShape rebar = shape) rebars_list"

definition named_shapes :: "string list" where
  "named_shapes = [''Stirrup'', ''BentShapeRebar'', ''UShapeRebar'', ''LShapeRebar'',
                   ''StraightRebar'', ''HelicalRebar'']"

definition custom_rebars :: "'p rebar list \<Rightarrow> 'p rebar list" where
  "custom_rebars rebars_list = filter (\<lambda>rebar. RebarShape rebar \<notin> set named_shapes) rebars_list"

text \<open>Sequencing of two steps that may raise.\<close>

definition and_then :: "py_error + 'a \<Rightarrow> ('a \<Rightarrow> py_error + 'b) \<Rightarrow> py_error + 'b" where
  "and_then r f = (case r of Inl err \<Rightarrow> Inl err | Inr a \<Rightarrow> f a)"

text \<open>
  The pass over the rebars, from the creation of \<^verbatim>\<open>rebars_svg\<close> to the end of the loop over
  the custom rebars.
\<close>

definition draw_rebars ::
  "('p, 's) freecad \<Rightarrow> svgfunc \<Rightarrow> real \<Rightarrow> plane \<Rightarrow> real \<times> real \<times> real \<times> real \<Rightarrow> 'p rebar list
     \<Rightarrow> py_error + 'p drawing_state" where
  "draw_rebars K F fac view_plane ext rebars_list =
     (case ext of (min_x, min_y, max_x, max_y) \<Rightarrow>
        (let h_dim_x_off = max_x + 50;
             h_dim_y_off = min_y + 50;
             v_dim_x_off = min_x + 50;
             v_dim_y_off = min_y - 50;
             st = \<lparr>rebars_svg = Element ''g'' [(''id'', ''Rebars'')] [], visible_rebars = [],
                   h_dim_y = h_dim_y_off, v_dim_x = v_dim_x_off\<rparr>
         in and_then (for_each (stirrup_body K F view_plane) (new_group ''Stirrup'' st)
                        (of_shape ''Stirrup'' rebars_list)) (\<lambda>st.
            and_then (for_each (ushape_body K F fac view_plane) (new_group ''BentShapeRebar'' st)
                        (of_shape ''BentShapeRebar'' rebars_list)) (\<lambda>st.
            and_then (for_each (ushape_body K F fac view_plane) (new_group ''UShapeRebar'' st)
                        (of_shape ''UShapeRebar'' rebars_list)) (\<lambda>st.
            and_then (for_each (ushape_body K F fac view_plane) (new_group ''LShapeRebar'' st)
                        (of_shape ''LShapeRebar'' rebars_list)) (\<lambda>st.
            and_then (for_each (straight_body K F fac view_plane h_dim_x_off v_dim_y_off)
                        (new_group ''StraightRebar'' st)
                        (of_shape ''StraightRebar'' rebars_list)) (\<lambda>st.
            and_then (for_each (helical_body K view_plane) (new_group ''HelicalRebar'' st)
                        (of_shape ''HelicalRebar'' rebars_list)) (\<lambda>st.
            for_each (custom_body K view_plane) (new_group ''CustomRebar'' st)
              (custom_rebars rebars_list)))))))))"

definition getReinforcementDrawingSVG ::
  "('p, 's) freecad \<Rightarrow> svgfunc \<Rightarrow> real \<Rightarrow> 's \<Rightarrow> 'p rebar list \<Rightarrow> view_direction \<Rightarrow> py_error + svg" where
  "getReinforcementDrawingSVG K F fac structure rebars_list view_dir =
     and_then (resolve_view_plane K view_dir) (\<lambda>view_plane.
       case drawing_extent K structure rebars_list view_plane of
         (min_x, min_y, max_x, max_y) \<Rightarrow>
           (let defs_element = Element ''defs'' [] [];
                defs_element = append_child defs_element
                                 (getArrowMarkerElement F ''start_arrow'' ''start'');
                defs_element = append_child defs_element
                                 (getArrowMarkerElement F ''end_arrow'' ''end'');
                root = append_child (getSVGRootElement F) defs_element
            in and_then (draw_rebars K F fac view_plane (min_x, min_y, max_x, max_y) rebars_list)
                 (\<lambda>st.
                   (let reinforcement_drawing = Element ''g'' [(''id'', ''reinforcement_drawing'')] [];
                        reinforcement_drawing = append_child reinforcement_drawing (rebars_svg st);
                        reinforcement_drawing = append_child reinforcement_drawing
                                                  (getSVG_structure K structure view_plane);
                        reinforcement_drawing = set_attrib reinforcement_drawing ''transform''
                           (''translate('' @ str_int (py_round (- min_x + 60)) @ '', ''
                            @ str_int (py_round (- min_y + 100)) @ '')'');
                        root = append_child root reinforcement_drawing;
                        svg_width = py_round (max_x - min_x + 200);
                        svg_height = py_round (max_y - min_y + 200);
                        root = set_attrib root ''width'' (str_int svg_width @ ''mm'');
                        root = set_attrib root ''height'' (str_int svg_height @ ''mm'');
                        root = set_attrib root ''viewBox''
                                 (''0 0 '' @ str_int svg_width @ '' '' @ str_int svg_height)
                    in Inr root))))"

subsection \<open>A reference platform for the examples\<close>

text \<open>
  An instance of the FreeCAD parameters, used by the examples only: exact vector algebra
  over the reals (the norm, the projection of one vector on another, the angle between
  two vectors with 0 standing for the NaN of a zero vector, and the signed angle of
  \<^verbatim>\<open>DraftVecUtils.angle\<close>). The wires of the examples are given filleted and with their
  edges sorted; a placement is a translation; the bounding box is the structure's, given
  by its lowest and highest corner, with the corners numbered as FreeCAD numbers them.
\<close>

definition dot :: "vector \<Rightarrow> vector \<Rightarrow> real" where
  "dot a b = vec_x a * vec_x b + vec_y a * vec_y b + vec_z a * vec_z b"

definition cross0 :: "vector \<Rightarrow> vector \<Rightarrow> vector" where
  "cross0 a b = Vector (vec_y a * vec_z b - vec_z a * vec_y b)
                       (vec_z a * vec_x b - vec_x a * vec_z b)
                       (vec_x a * vec_y b - vec_y a * vec_x b)"

definition Length0 :: "vector \<Rightarrow> real" where
  "Length0 a = sqrt (dot a a)"

definition project0 :: "vector \<Rightarrow> vector \<Rightarrow> vector" where
  "project0 a b =
     (let dp = dot b b
      in if dp = 0 then Vector 0 0 0
         else Vector (vec_x b * (dot a b / dp)) (vec_y b * (dot a b / dp))
                (vec_z b * (dot a b / dp)))"

definition getAngle0 :: "vector \<Rightarrow> vector \<Rightarrow> real" where
  "getAngle0 a b =
     (if Length0 a * Length0 b = 0 then 0
      else arccos (max (- 1) (min 1 (dot a b / (Length0 a * Length0 b)))))"

definition angle0 :: "vector \<Rightarrow> vector \<Rightarrow> vector \<Rightarrow> real" where
  "angle0 a b n =
     (let ll = Length0 a * Length0 b
      in if ll = 0 then 0
         else (let ang = arccos (max (- 1) (min 1 (dot a b / ll)))
               in if 0 \<le> dot n (cross0 a b) then ang else - ang))"

definition translate :: "vector \<Rightarrow> vector \<Rightarrow> vector" where
  "translate t a = Vector (vec_x a + vec_x t) (vec_y a + vec_y t) (vec_z a + vec_z t)"

definition translate_wire :: "vector \<Rightarrow> wire \<Rightarrow> wire" where
  "translate_wire t w =
     \<lparr>Vertexes = map (translate t) (Vertexes w),
      Edges = map (\<lambda>e. e\<lparr>Vertex0 := translate t (Vertex0 e), Vertex1 := translate t (Vertex1 e)\<rparr>)
                (Edges w)\<rparr>"

definition box_point :: "vector \<times> vector \<Rightarrow> nat \<Rightarrow> vector" where
  "box_point box i =
     (case box of (lo, hi) \<Rightarrow>
        Vector (if i \<in> {2, 3, 6, 7} then vec_x hi else vec_x lo)
               (if i \<in> {1, 2, 5, 6} then vec_y hi else vec_y lo)
               (if i \<in> {0, 1, 2, 3} then vec_z hi else vec_z lo))"

text \<open>The text of a float that has at most one decimal digit, as Python prints it.\<close>

definition float_str0 :: "real \<Rightarrow> string" where
  "float_str0 r =
     (if r < 0 then ''-'' else '''') @ str_nat (nat \<lfloor>\<bar>r\<bar>\<rfloor>) @ ''.''
     @ str_nat (nat \<lfloor>(\<bar>r\<bar> - of_int \<lfloor>\<bar>r\<bar>\<rfloor>) * 10\<rfloor>)"

definition K0 :: "(vector, vector \<times> vector) freecad" where
  "K0 = \<lparr>project = project0, Length = Length0, getAngle = getAngle0, cross = cross0,
          angle = angle0, isNull = (\<lambda>a. a = Vector 0 0 0),
          normalize = (\<lambda>a. Vector (vec_x a / Length0 a) (vec_y a / Length0 a) (vec_z a / Length0 a)),
          filletWire = (\<lambda>w r. w), sortEdges = (\<lambda>es. es),
          placeWire = translate_wire,
          alignToPointAndAxis = (\<lambda>p a r. \<lparr>axis = a, plane_u = Vector 1 0 0, plane_v = Vector 0 1 0\<rparr>),
          boundBoxPoint = (\<lambda>rs box i. box_point box i),
          getSVG_rebar = (\<lambda>r pl. Element ''g'' [(''id'', Name r)] []),
          getSVG_structure = (\<lambda>s pl. Element ''g'' [(''id'', ''structure'')] []),
          float_str = float_str0\<rparr>"

text \<open>The plane that \<^const>\<open>getViewPlane\<close> returns for the view from the top.\<close>

definition top_view :: plane where
  "top_view = \<lparr>axis = Vector 0 0 1, plane_u = Vector 1 0 0, plane_v = Vector 0 (- 1) 0\<rparr>"

text \<open>
  Modelled from the spec: the functions of \<^verbatim>\<open>SVGfunc\<close>, whose source is missing. The spec
  says of them that points, lines and texts are \<^verbatim>\<open>circle\<close>, \<^verbatim>\<open>path\<close> and \<^verbatim>\<open>text\<close> elements
  with integer-rounded coordinates, and that the containment tests look for an equivalent
  point or line, a line in either order of its end points. Element text is not part of
  the tree of the model; the label keeps its text under the key \<^verbatim>\<open>text\<close>.
\<close>

definition point_attrs :: "vector \<Rightarrow> (string \<times> string) list" where
  "point_attrs p = [(''cx'', str_int (py_round (vec_x p))), (''cy'', str_int (py_round (vec_y p)))]"

definition line_d :: "vector \<Rightarrow> vector \<Rightarrow> string" where
  "line_d p1 p2 =
     ''M'' @ str_int (py_round (vec_x p1)) @ '' '' @ str_int (py_round (vec_y p1))
     @ '' L'' @ str_int (py_round (vec_x p2)) @ '' '' @ str_int (py_round (vec_y p2))"

definition is_point_at :: "vector \<Rightarrow> svg \<Rightarrow> bool" where
  "is_point_at p c =
     (tag c = ''circle'' \<and> map_of (attrib c) ''cx'' = Some (str_int (py_round (vec_x p)))
      \<and> map_of (attrib c) ''cy'' = Some (str_int (py_round (vec_y p))))"

definition F0 :: svgfunc where
  "F0 = \<lparr>getSVGRootElement = Element ''svg'' [(''version'', ''1.1'')] [],
          getPointSVG = (\<lambda>p r. Element ''circle'' (point_attrs p @ [(''r'', float_str0 r)]) []),
          isPointInSVG = (\<lambda>p tree. find (is_point_at p) (descendants tree) \<noteq> None),
          getLineSVG = (\<lambda>p1 p2. Element ''path''
                          [(''d'', line_d p1 p2), (''style'', ''stroke:#000000'')] []),
          isLineInSVG = (\<lambda>p1 p2 tree. find_path_d tree (line_d p1 p2) \<noteq> None
                                       \<or> find_path_d tree (line_d p2 p1) \<noteq> None),
          getSVGTextElement = (\<lambda>txt px py family size anchor baseline.
             Element ''text''
               ([(''x'', float_str0 px), (''y'', float_str0 py), (''font-family'', family),
                 (''font-size'', size)]
                @ (case anchor of None \<Rightarrow> [] | Some a \<Rightarrow> [(''text-anchor'', a)])
                @ (case baseline of None \<Rightarrow> [] | Some b \<Rightarrow> [(''dominant-baseline'', b)])
                @ [(''text'', txt)]) []),
          getSVGPathElement = (\<lambda>d marker style.
             Element ''path'' [(''d'', d), (''marker-start'', marker), (''style'', style)] []),
          getArrowMarkerElement = (\<lambda>ident kind.
             Element ''marker'' [(''id'', ident), (''orient'', ''auto'')] [])\<rparr>"

text \<open>
  A fillet arc of radius 10 from (0, 0, 0) to (8, -16, 0) around (0, -10, 0), turning
  clockwise seen from above, and the same arc run through from its other end.
\<close>

definition arc_ab :: edge where
  "arc_ab = \<lparr>geomType = ''Circle'', Vertex0 = Vector 0 0 0, Vertex1 = Vector 8 (- 16) 0,
             tangent_first = Vector 1 0 0, tangent_tenth = Vector (40 / 41) (- (9 / 41)) 0\<rparr>"

definition arc_ba :: edge where
  "arc_ba = \<lparr>geomType = ''Circle'', Vertex0 = Vector 8 (- 16) 0, Vertex1 = Vector 0 0 0,
             tangent_first = Vector (3 / 5) (4 / 5) 0,
             tangent_tenth = Vector (84 / 205) (187 / 205) 0\<rparr>"

subsection \<open>Notions used to state the properties\<close>

text \<open>
  The projected end points of an edge, the test for two points that round to the same
  integer coordinate, and the edges that the loops over edges draw at all.
\<close>

definition edge_p1 :: "('p, 's) freecad \<Rightarrow> plane \<Rightarrow> edge \<Rightarrow> vector" where
  "edge_p1 K view_plane e = getProjectionToSVGPlane K (Vertex0 e) view_plane"

definition edge_p2 :: "('p, 's) freecad \<Rightarrow> plane \<Rightarrow> edge \<Rightarrow> vector" where
  "edge_p2 K view_plane e = getProjectionToSVGPlane K (Vertex1 e) view_plane"

definition same_rounded_point :: "vector \<Rightarrow> vector \<Rightarrow> bool" where
  "same_rounded_point p1 p2 =
     (py_round (vec_x p1) = py_round (vec_x p2) \<and> py_round (vec_y p1) = py_round (vec_y p2))"

definition drawn_edge :: "edge \<Rightarrow> bool" where
  "drawn_edge e = (geomType e = ''Line'' \<or> geomType e = ''Circle'')"

text \<open>
  The face-on branch of \<^const>\<open>getStirrupSVGData\<close>: the element built for an edge, and
  whether the test made for the edge finds it in the tree.
\<close>

definition stirrup_edge_svg :: "('p, 's) freecad \<Rightarrow> svgfunc \<Rightarrow> 'p rebar \<Rightarrow> plane \<Rightarrow> edge \<Rightarrow> svg" where
  "stirrup_edge_svg K F rebar view_plane e =
     (if geomType e = ''Line'' then getLineSVG F (edge_p1 K view_plane e) (edge_p2 K view_plane e)
      else getRoundCornerSVG K e (Rounding rebar * Diameter_Value rebar) view_plane)"

definition stirrup_edge_found ::
  "('p, 's) freecad \<Rightarrow> svgfunc \<Rightarrow> 'p rebar \<Rightarrow> plane \<Rightarrow> svg \<Rightarrow> edge \<Rightarrow> bool" where
  "stirrup_edge_found K F rebar view_plane tree e =
     (if geomType e = ''Line''
      then isLineInSVG F (edge_p1 K view_plane e) (edge_p2 K view_plane e) tree
      else isRoundCornerInSVG K e (Rounding rebar * Diameter_Value rebar) view_plane tree)"

text \<open>
  The face-on branch of \<^const>\<open>getUShapeRebarSVGData\<close>: the element built for an edge, and
  whether the edge sets \<^verbatim>\<open>is_rebar_visible\<close>.
\<close>

definition ushape_edge_svg ::
  "('p, 's) freecad \<Rightarrow> svgfunc \<Rightarrow> real \<Rightarrow> 'p rebar \<Rightarrow> plane \<Rightarrow> edge \<Rightarrow> svg" where
  "ushape_edge_svg K F fac rebar view_plane e =
     (let p1 = edge_p1 K view_plane e; p2 = edge_p2 K view_plane e
      in if geomType e = ''Line'' then
           (if same_rounded_point p1 p2 then getPointSVG F p1 (fac * Diameter_Value rebar)
            else getLineSVG F p1 p2)
         else
           (if py_round (vec_x p1) = py_round (vec_x p2) \<or> py_round (vec_y p1) = py_round (vec_y p2)
            then getLineSVG F p1 p2
            else getRoundCornerSVG K e (Rounding rebar * Diameter_Value rebar) view_plane))"

definition ushape_edge_novel ::
  "('p, 's) freecad \<Rightarrow> svgfunc \<Rightarrow> 'p rebar \<Rightarrow> plane \<Rightarrow> svg \<Rightarrow> edge \<Rightarrow> bool" where
  "ushape_edge_novel K F rebar view_plane tree e =
     (let p1 = edge_p1 K view_plane e; p2 = edge_p2 K view_plane e
      in if geomType e = ''Line'' then
           (\<not> same_rounded_point p1 p2 \<and> \<not> isLineInSVG F p1 p2 tree)
         else
           (if py_round (vec_x p1) = py_round (vec_x p2) \<or> py_round (vec_y p1) = py_round (vec_y p2)
            then \<not> isLineInSVG F p1 p2 tree
            else \<not> isRoundCornerInSVG K e (Rounding rebar * Diameter_Value rebar) view_plane tree))"

text \<open>The test of a builder for a rebar seen face-on.\<close>

definition face_on :: "('p, 's) freecad \<Rightarrow> plane \<Rightarrow> 'p rebar \<Rightarrow> bool" where
  "face_on K view_plane rebar =
     (py_round (Length K (cross K (axis view_plane) (getRebarsSpanAxis K rebar))) = 0)"

text \<open>The sorted edges of the filleted base wire, over which the face-on branches loop.\<close>

definition profile_edges :: "('p, 's) freecad \<Rightarrow> 'p rebar \<Rightarrow> edge list" where
  "profile_edges K rebar =
     sortEdges K (Edges (filletWire K (Wire0 rebar) (Rounding rebar * Diameter_Value rebar)))"

text \<open>An element with more children appended.\<close>

definition append_children :: "svg \<Rightarrow> svg list \<Rightarrow> svg" where
  "append_children e cs = Element (tag e) (attrib e) (children e @ cs)"

subsection \<open>Example inputs\<close>

text \<open>
  A straight edge (its tangents, which the module does not read, are left zero), and a
  rebar of diameter 10 and rounding 1 whose base is a Draft wire in the plane \<open>z = 0\<close>, so
  that its span axis is the z axis and the view from the top sees it face-on.
\<close>

definition line_edge :: "vector \<Rightarrow> vector \<Rightarrow> edge" where
  "line_edge a b = \<lparr>geomType = ''Line'', Vertex0 = a, Vertex1 = b,
                    tangent_first = Vector 0 0 0, tangent_tenth = Vector 0 0 0\<rparr>"

definition flat_rebar :: "string \<Rightarrow> string \<Rightarrow> wire \<Rightarrow> vector rebar" where
  "flat_rebar name shape w =
     \<lparr>Name = name, RebarShape = shape, Diameter_Value = 10, Diameter_str = ''10 mm'',
      Rounding = 1, Amount = 4, Direction = None, Base_type = ''Wire'',
      Base_normal = Vector 0 0 1, Base_minus_z = Vector 0 0 (- 1), Wire0 = w,
      PlacementList = [Vector 0 0 0]\<rparr>"

text \<open>
  An L-shaped profile of two straight edges, and a tree in which another rebar has already
  drawn the first of them.
\<close>

definition l_wire :: wire where
  "l_wire = \<lparr>Vertexes = [Vector 0 0 0, Vector 100 0 0, Vector 100 (- 50) 0],
             Edges = [line_edge (Vector 0 0 0) (Vector 100 0 0),
                      line_edge (Vector 100 0 0) (Vector 100 (- 50) 0)]\<rparr>"

definition tree_with_first_edge :: svg where
  "tree_with_first_edge =
     Element ''g'' [(''id'', ''Rebars'')]
       [Element ''g'' [(''id'', ''Stirrup'')]
          [Element ''g'' [(''id'', ''Stirrup001'')]
             [getLineSVG F0 (Vector 0 0 0) (Vector 100 0 0)]]]"

text \<open>
  A profile with a hook: a straight edge, then a half circle of radius 10 from (100, 0, 0)
  to (100, -20, 0), whose two ends have the same x.
\<close>

definition hook_arc :: edge where
  "hook_arc = \<lparr>geomType = ''Circle'', Vertex0 = Vector 100 0 0, Vertex1 = Vector 100 (- 20) 0,
               tangent_first = Vector 1 0 0, tangent_tenth = Vector (12 / 13) (- (5 / 13)) 0\<rparr>"

definition hook_wire :: wire where
  "hook_wire = \<lparr>Vertexes = [Vector 0 0 0, Vector 100 0 0, Vector 100 (- 20) 0],
                Edges = [line_edge (Vector 0 0 0) (Vector 100 0 0), hook_arc]\<rparr>"

text \<open>
  A profile in which a straight piece of length 0.4 is left between two longer edges, as
  a fillet leaves it on a short side.
\<close>

definition short_piece :: edge where
  "short_piece = line_edge (Vector 100 0 0) (Vector 100 (- (2 / 5)) 0)"

definition short_wire :: wire where
  "short_wire = \<lparr>Vertexes = [Vector 0 0 0, Vector 100 0 0, Vector 100 (- (2 / 5)) 0],
                 Edges = [line_edge (Vector 0 0 0) (Vector 100 0 0), short_piece]\<rparr>"

definition empty_tree :: svg where
  "empty_tree = Element ''g'' [(''id'', ''Rebars'')] [Element ''g'' [(''id'', ''Stirrup'')] []]"

section \<open>Properties\<close>

subsection \<open>The view-plane table\<close>

text \<open>
  Claim C8. Each of the six named views gets its fixed (axis, u, v) triple and prints
  nothing; every other view name prints the error line and yields \<^verbatim>\<open>None\<close>.
\<close>

theorem getViewPlane_table:
  "getViewPlane ''Front'' =
     ([], Some \<lparr>axis = Vector 0 (- 1) 0, plane_u = Vector 1 0 0, plane_v = Vector 0 0 (- 1)\<rparr>)
   \<and> getViewPlane ''Rear'' =
     ([], Some \<lparr>axis = Vector 0 1 0, plane_u = Vector (- 1) 0 0, plane_v = Vector 0 0 (- 1)\<rparr>)
   \<and> getViewPlane ''Left'' =
     ([], Some \<lparr>axis = Vector (- 1) 0 0, plane_u = Vector 0 (- 1) 0, plane_v = Vector 0 0 (- 1)\<rparr>)
   \<and> getViewPlane ''Right'' =
     ([], Some \<lparr>axis = Vector 1 0 0, plane_u = Vector 0 1 0, plane_v = Vector 0 0 (- 1)\<rparr>)
   \<and> getViewPlane ''Top'' =
     ([], Some \<lparr>axis = Vector 0 0 1, plane_u = Vector 1 0 0, plane_v = Vector 0 (- 1) 0\<rparr>)
   \<and> getViewPlane ''Bottom'' =
     ([], Some \<lparr>axis = Vector 0 0 (- 1), plane_u = Vector 1 0 0, plane_v = Vector 0 1 0\<rparr>)
   \<and> (\<forall>view. view \<notin> {''Front'', ''Rear'', ''Left'', ''Right'', ''Top'', ''Bottom''}
         \<longrightarrow> getViewPlane view = ([invalid_view_message], None))"
  by (simp add: getViewPlane_def)

theorem getViewPlane_table_witness:
  "''Isometric'' \<notin> {''Front'', ''Rear'', ''Left'', ''Right'', ''Top'', ''Bottom''}
   \<and> getViewPlane ''Isometric'' = ([invalid_view_message], None)
   \<and> getViewPlane ''front'' = ([invalid_view_message], None)"
proof -
  have other: "\<And>view. view \<notin> {''Front'', ''Rear'', ''Left'', ''Right'', ''Top'', ''Bottom''}
      \<Longrightarrow> getViewPlane view = ([invalid_view_message], None)"
    using getViewPlane_table by blast
  show ?thesis
    using other [of "''Isometric''"] other [of "''front''"] by simp
qed

subsection \<open>Facts about the reference platform\<close>

lemma arccos_pos: "- 1 \<le> y \<Longrightarrow> y < 1 \<Longrightarrow> 0 < arccos y"
proof -
  assume a: "- 1 \<le> y" "y < 1"
  show ?thesis
  proof (cases "y = - 1")
    case True then show ?thesis by simp
  next
    case False
    with a have "- 1 < y" by simp
    with a show ?thesis using arccos_lt_bounded [of y] by simp
  qed
qed

lemma angle0_neg_iff:
  "angle0 a b n < 0 \<longleftrightarrow>
     Length0 a * Length0 b \<noteq> 0 \<and> dot n (cross0 a b) < 0 \<and> dot a b / (Length0 a * Length0 b) < 1"
proof -
  define r where "r = dot a b / (Length0 a * Length0 b)"
  define q where "q = max (- 1) (min 1 r)"
  have b: "- 1 \<le> q" "q \<le> 1" by (simp_all add: q_def)
  have nn: "0 \<le> arccos q" using arccos_lbound [OF b] .
  have one: "q = 1 \<longleftrightarrow> \<not> r < 1" by (auto simp: q_def max_def min_def)
  have pos: "0 < arccos q \<longleftrightarrow> r < 1"
  proof
    assume "0 < arccos q"
    then have "q \<noteq> 1" by auto
    then show "r < 1" using one by simp
  next
    assume "r < 1"
    then have "q < 1" using one b by linarith
    then show "0 < arccos q" using arccos_pos b by simp
  qed
  have val: "angle0 a b n =
      (if Length0 a * Length0 b = 0 then 0
       else if 0 \<le> dot n (cross0 a b) then arccos q else - arccos q)"
    by (simp add: angle0_def Let_def q_def r_def)
  show ?thesis
  proof (cases "Length0 a * Length0 b = 0")
    case True
    then show ?thesis by (simp add: val)
  next
    case False
    show ?thesis
    proof (cases "0 \<le> dot n (cross0 a b)")
      case True
      then show ?thesis using False nn by (simp add: val not_less)
    next
      case neg: False
      then have "angle0 a b n < 0 \<longleftrightarrow> 0 < arccos q" using False by (simp add: val)
      then show ?thesis using pos neg False by (simp add: r_def not_le)
    qed
  qed
qed

lemma Length0_eq_0_iff: "Length0 a = 0 \<longleftrightarrow> a = Vector 0 0 0"
proof (cases a)
  case (Vector p q r)
  have "p * p + q * q + r * r = 0 \<longleftrightarrow> p = 0 \<and> q = 0 \<and> r = 0"
    by (metis add_nonneg_eq_0_iff add_nonneg_nonneg mult_eq_0_iff zero_le_square)
  then show ?thesis using Vector by (simp add: Length0_def dot_def)
qed

lemma Length0_axis_x: "Length0 (Vector p 0 0) = \<bar>p\<bar>"
  by (simp add: Length0_def dot_def)
lemma Length0_axis_y: "Length0 (Vector 0 p 0) = \<bar>p\<bar>"
  by (simp add: Length0_def dot_def)

lemma getAngle0_x: "1 < \<bar>getAngle0 (Vector p 0 0) (Vector 1 0 0)\<bar> * 10 \<longleftrightarrow> p < 0"
proof -
  have "p \<noteq> 0 \<Longrightarrow> getAngle0 (Vector p 0 0) (Vector 1 0 0) = arccos (if p < 0 then - 1 else 1)"
    by (auto simp: getAngle0_def Length0_def dot_def max_def min_def real_sqrt_mult abs_if
        divide_simps split: if_splits)
  moreover have "p = 0 \<Longrightarrow> getAngle0 (Vector p 0 0) (Vector 1 0 0) = 0"
    by (simp add: getAngle0_def Length0_def dot_def)
  ultimately show ?thesis using pi_ge_two by (cases "p = 0") auto
qed

lemma getAngle0_y: "1 < \<bar>getAngle0 (Vector 0 q 0) (Vector 0 (- 1) 0)\<bar> * 10 \<longleftrightarrow> 0 < q"
proof -
  have "q \<noteq> 0 \<Longrightarrow> getAngle0 (Vector 0 q 0) (Vector 0 (- 1) 0) = arccos (if 0 < q then - 1 else 1)"
    by (auto simp: getAngle0_def Length0_def dot_def max_def min_def real_sqrt_mult abs_if
        divide_simps split: if_splits)
  moreover have "q = 0 \<Longrightarrow> getAngle0 (Vector 0 q 0) (Vector 0 (- 1) 0) = 0"
    by (simp add: getAngle0_def Length0_def dot_def)
  ultimately show ?thesis using pi_ge_two by (cases "q = 0") auto
qed

lemma K0_projection_top:
  "getProjectionToSVGPlane K0 (Vector a b c) top_view = Vector a (- b) 0"
proof -
  have px: "project0 (Vector a b c) (Vector 1 0 0) = Vector a 0 0"
    by (simp add: project0_def dot_def)
  have py: "project0 (Vector a b c) (Vector 0 (- 1) 0) = Vector 0 b 0"
    by (simp add: project0_def dot_def)
  show ?thesis
    by (simp add: getProjectionToSVGPlane_def K0_def top_view_def px py Length0_axis_x
        Length0_axis_y getAngle0_x getAngle0_y Let_def)
qed

lemma sweep_ab: "sweep_flag K0 arc_ab top_view = 1"
  by (simp add: sweep_flag_def K0_def top_view_def arc_ab_def angle0_neg_iff Length0_def dot_def
      cross0_def)

lemma sweep_ba: "sweep_flag K0 arc_ba top_view = 0"
  by (simp add: sweep_flag_def K0_def top_view_def arc_ba_def angle0_neg_iff Length0_def dot_def
      cross0_def)

subsection \<open>Searching the tree\<close>

lemma find_path_d_descendant:
  "c \<in> set (descendants tree) \<Longrightarrow> tag c = ''path'' \<Longrightarrow> map_of (attrib c) ''d'' = Some d
     \<Longrightarrow> find_path_d tree d \<noteq> None"
  by (auto simp: find_path_d_def find_None_iff)

lemma getRoundCornerSVG_shape:
  "getRoundCornerSVG K e radius view_plane =
     Element ''path''
       [(''style'', ''stroke:#000000;fill:none''),
        (''d'', round_corner_d
                  (py_round (vec_x (getProjectionToSVGPlane K (Vertex0 e) view_plane)))
                  (py_round (vec_y (getProjectionToSVGPlane K (Vertex0 e) view_plane)))
                  (py_round radius) (str_int (sweep_flag K e view_plane))
                  (py_round (vec_x (getProjectionToSVGPlane K (Vertex1 e) view_plane)))
                  (py_round (vec_y (getProjectionToSVGPlane K (Vertex1 e) view_plane))))] []"
  by (simp add: getRoundCornerSVG_def set_attrib_def Let_def)

lemma isRoundCornerInSVG_finds_own:
  "getRoundCornerSVG K e radius view_plane \<in> set (descendants tree)
     \<Longrightarrow> isRoundCornerInSVG K e radius view_plane tree"
  using find_path_d_descendant [of "getRoundCornerSVG K e radius view_plane" tree]
  by (simp add: isRoundCornerInSVG_def Let_def getRoundCornerSVG_shape)

subsection \<open>The round-corner test and the reversed arc\<close>

text \<open>
  Claim C1. The path that \<^const>\<open>getRoundCornerSVG\<close> writes for an arc is found by
  \<^const>\<open>isRoundCornerInSVG\<close> when it was written from the same end (lemma
  \<open>isRoundCornerInSVG_finds_own\<close>), but not when it was written from the other end with
  the complemented sweep flag: the second query of \<^const>\<open>isRoundCornerInSVG\<close> formats
  the flag as \<^verbatim>\<open>True\<close> or \<^verbatim>\<open>False\<close>, and no written path holds such a word. Here the arc
  \<^const>\<open>arc_ab\<close> is looked for in a tree that holds the path of \<^const>\<open>arc_ba\<close>.
\<close>

theorem isRoundCornerInSVG_misses_reversed_arc:
  "getRoundCornerSVG K0 arc_ab 10 top_view =
     Element ''path''
       [(''style'', ''stroke:#000000;fill:none''), (''d'', ''M0 0 A10 10 0 0 1 8 16'')] []
   \<and> getRoundCornerSVG K0 arc_ba 10 top_view =
     Element ''path''
       [(''style'', ''stroke:#000000;fill:none''), (''d'', ''M8 16 A10 10 0 0 0 0 0'')] []
   \<and> isRoundCornerInSVG K0 arc_ab 10 top_view
         (Element ''g'' [] [getRoundCornerSVG K0 arc_ab 10 top_view])
   \<and> \<not> isRoundCornerInSVG K0 arc_ab 10 top_view
         (Element ''g'' [] [getRoundCornerSVG K0 arc_ba 10 top_view])"
proof -
  have ab: "getRoundCornerSVG K0 arc_ab 10 top_view =
     Element ''path''
       [(''style'', ''stroke:#000000;fill:none''), (''d'', ''M0 0 A10 10 0 0 1 8 16'')] []"
    by (simp add: getRoundCornerSVG_shape sweep_ab)
       (simp add: arc_ab_def K0_projection_top round_corner_d_def py_round_def str_int_def
          digit_char_def)
  have ba: "getRoundCornerSVG K0 arc_ba 10 top_view =
     Element ''path''
       [(''style'', ''stroke:#000000;fill:none''), (''d'', ''M8 16 A10 10 0 0 0 0 0'')] []"
    by (simp add: getRoundCornerSVG_shape sweep_ba)
       (simp add: arc_ba_def K0_projection_top round_corner_d_def py_round_def str_int_def
          digit_char_def)
  have found: "isRoundCornerInSVG K0 arc_ab 10 top_view
         (Element ''g'' [] [getRoundCornerSVG K0 arc_ab 10 top_view])"
    by (rule isRoundCornerInSVG_finds_own) simp
  have missed: "\<not> isRoundCornerInSVG K0 arc_ab 10 top_view
         (Element ''g'' [] [getRoundCornerSVG K0 arc_ba 10 top_view])"
    unfolding ba
    by (simp add: isRoundCornerInSVG_def sweep_ab find_path_d_def Let_def)
       (simp add: arc_ab_def K0_projection_top round_corner_d_def py_round_def str_int_def
          str_bool_def digit_char_def)
  show ?thesis using ab ba found missed by blast
qed

subsection \<open>The loops over the edges of a rebar seen face-on\<close>

lemma append_children_Nil [simp]: "append_children e [] = e"
  by (simp add: append_children_def)

lemma append_children_child:
  "append_children (append_child e c) cs = append_children e (c # cs)"
  by (simp add: append_children_def append_child_def)

lemma children_append_children [simp]: "children (append_children e cs) = children e @ cs"
  by (simp add: append_children_def)

lemma ushape_edge_step_drawn:
  "drawn_edge e \<Longrightarrow>
   ushape_edge_step K F fac rebar view_plane tree (frag, vis) e =
     (if vis \<or> ushape_edge_novel K F rebar view_plane tree e
      then (append_child frag (ushape_edge_svg K F fac rebar view_plane e), True)
      else (frag, False))"
  by (auto simp: ushape_edge_step_def drawn_edge_def ushape_edge_novel_def ushape_edge_svg_def
      ushape_line_svg_def ushape_circle_svg_def edge_p1_def edge_p2_def same_rounded_point_def
      Let_def)

lemma ushape_edge_step_other:
  "\<not> drawn_edge e \<Longrightarrow> ushape_edge_step K F fac rebar view_plane tree st e = st"
  by (cases st) (simp add: ushape_edge_step_def drawn_edge_def)

lemma ushape_loop_visible:
  "foldl (ushape_edge_step K F fac rebar view_plane tree) (frag, True) es =
     (append_children frag (map (ushape_edge_svg K F fac rebar view_plane) (filter drawn_edge es)),
      True)"
proof (induction es arbitrary: frag)
  case Nil
  show ?case by simp
next
  case (Cons e es)
  show ?case
  proof (cases "drawn_edge e")
    case True
    then show ?thesis
      by (simp add: ushape_edge_step_drawn Cons.IH append_children_child)
  next
    case False
    then show ?thesis by (simp add: ushape_edge_step_other Cons.IH)
  qed
qed

lemma ushape_loop_hidden:
  "foldl (ushape_edge_step K F fac rebar view_plane tree) (frag, False) es =
     (let from_novel = dropWhile (\<lambda>e. \<not> (drawn_edge e \<and> ushape_edge_novel K F rebar view_plane tree e)) es
      in (append_children frag
            (map (ushape_edge_svg K F fac rebar view_plane) (filter drawn_edge from_novel)),
          from_novel \<noteq> []))"
proof (induction es)
  case Nil
  show ?case by simp
next
  case (Cons e es)
  show ?case
  proof (cases "drawn_edge e")
    case drawn: True
    show ?thesis
    proof (cases "ushape_edge_novel K F rebar view_plane tree e")
      case True
      then show ?thesis using drawn
        by (simp add: ushape_edge_step_drawn ushape_loop_visible append_children_child)
    next
      case False
      then show ?thesis using drawn Cons.IH
        by (simp add: ushape_edge_step_drawn)
    qed
  next
    case False
    then show ?thesis using Cons.IH by (simp add: ushape_edge_step_other)
  qed
qed

lemma stirrup_edge_step_drawn:
  "drawn_edge e \<Longrightarrow>
   stirrup_edge_step K F rebar view_plane tree (frag, vis) e =
     (if vis \<or> \<not> stirrup_edge_found K F rebar view_plane tree e
      then (append_child frag (stirrup_edge_svg K F rebar view_plane e), True)
      else (frag, False))"
  by (auto simp: stirrup_edge_step_def drawn_edge_def stirrup_edge_found_def stirrup_edge_svg_def
      edge_p1_def edge_p2_def Let_def)

lemma stirrup_edge_step_other:
  "\<not> drawn_edge e \<Longrightarrow> stirrup_edge_step K F rebar view_plane tree st e = st"
  by (cases st) (simp add: stirrup_edge_step_def drawn_edge_def)

lemma stirrup_loop_visible:
  "foldl (stirrup_edge_step K F rebar view_plane tree) (frag, True) es =
     (append_children frag (map (stirrup_edge_svg K F rebar view_plane) (filter drawn_edge es)),
      True)"
proof (induction es arbitrary: frag)
  case Nil
  show ?case by simp
next
  case (Cons e es)
  show ?case
  proof (cases "drawn_edge e")
    case True
    then show ?thesis
      by (simp add: stirrup_edge_step_drawn Cons.IH append_children_child)
  next
    case False
    then show ?thesis by (simp add: stirrup_edge_step_other Cons.IH)
  qed
qed

lemma stirrup_loop_hidden:
  "foldl (stirrup_edge_step K F rebar view_plane tree) (frag, False) es =
     (let from_novel = dropWhile (\<lambda>e. \<not> (drawn_edge e \<and> \<not> stirrup_edge_found K F rebar view_plane tree e)) es
      in (append_children frag
            (map (stirrup_edge_svg K F rebar view_plane) (filter drawn_edge from_novel)),
          from_novel \<noteq> []))"
proof (induction es)
  case Nil
  show ?case by simp
next
  case (Cons e es)
  show ?case
  proof (cases "drawn_edge e")
    case drawn: True
    show ?thesis
    proof (cases "stirrup_edge_found K F rebar view_plane tree e")
      case False
      then show ?thesis using drawn
        by (simp add: stirrup_edge_step_drawn stirrup_loop_visible append_children_child)
    next
      case True
      then show ?thesis using drawn Cons.IH
        by (simp add: stirrup_edge_step_drawn)
    qed
  next
    case False
    then show ?thesis using Cons.IH by (simp add: stirrup_edge_step_other)
  qed
qed

lemma getUShapeRebarSVGData_face_on:
  "face_on K view_plane rebar \<Longrightarrow>
   getUShapeRebarSVGData K F fac rebar view_plane tree =
     (let from_novel = dropWhile
            (\<lambda>e. \<not> (drawn_edge e \<and> ushape_edge_novel K F rebar view_plane tree e))
            (profile_edges K rebar)
      in \<lparr>data_svg = Element ''g'' [(''id'', Name rebar)]
                       (map (ushape_edge_svg K F fac rebar view_plane) (filter drawn_edge from_novel)),
          visibility = (from_novel \<noteq> [])\<rparr>)"
  by (simp add: getUShapeRebarSVGData_def face_on_def profile_edges_def ushape_loop_hidden
      Let_def append_children_def)

lemma getStirrupSVGData_face_on:
  "face_on K view_plane rebar \<Longrightarrow>
   getStirrupSVGData K F rebar view_plane tree =
     (let from_novel = dropWhile
            (\<lambda>e. \<not> (drawn_edge e \<and> \<not> stirrup_edge_found K F rebar view_plane tree e))
            (profile_edges K rebar)
      in Inr \<lparr>data_svg = Element ''g'' [(''id'', Name rebar)]
                       (map (stirrup_edge_svg K F rebar view_plane) (filter drawn_edge from_novel)),
          visibility = (from_novel \<noteq> [])\<rparr>)"
  by (simp add: getStirrupSVGData_def face_on_def profile_edges_def stirrup_loop_hidden
      Let_def append_children_def)

subsection \<open>Facts about the examples\<close>

lemma py_round_int [simp]: "py_round (of_int n) = n"
  by (simp add: py_round_def Let_def)

lemma py_round_numeral [simp]: "py_round (numeral n) = numeral n" "py_round 0 = 0" "py_round 1 = 1"
  using py_round_int [of "numeral n"] py_round_int [of 0] py_round_int [of 1] by simp_all

lemma py_round_neg_numeral [simp]: "py_round (- numeral n) = - numeral n"
  using py_round_int [of "- numeral n"] by simp

lemma face_on_flat [simp]: "face_on K0 top_view (flat_rebar name shape w)"
  by (simp add: face_on_def getRebarsSpanAxis_def flat_rebar_def K0_def top_view_def cross0_def
      Length0_def dot_def)

lemma profile_edges_flat [simp]: "profile_edges K0 (flat_rebar name shape w) = Edges w"
  by (simp add: profile_edges_def flat_rebar_def K0_def)

lemma edge_points_line [simp]:
  "edge_p1 K0 top_view (line_edge (Vector a b c) q) = Vector a (- b) 0"
  "edge_p2 K0 top_view (line_edge q (Vector a b c)) = Vector a (- b) 0"
  by (simp_all add: edge_p1_def edge_p2_def line_edge_def K0_projection_top)

lemma line_edge_sel [simp]:
  "geomType (line_edge a b) = ''Line''" "drawn_edge (line_edge a b)"
  by (simp_all add: line_edge_def drawn_edge_def)

lemma F0_sel [simp]:
  "getLineSVG F0 p1 p2 = Element ''path'' [(''d'', line_d p1 p2), (''style'', ''stroke:#000000'')] []"
  "isLineInSVG F0 p1 p2 tree \<longleftrightarrow>
     find_path_d tree (line_d p1 p2) \<noteq> None \<or> find_path_d tree (line_d p2 p1) \<noteq> None"
  "getPointSVG F0 p r = Element ''circle'' (point_attrs p @ [(''r'', float_str0 r)]) []"
  "isPointInSVG F0 p tree \<longleftrightarrow> find (is_point_at p) (descendants tree) \<noteq> None"
  by (simp_all add: F0_def)

lemmas str_simps = line_d_def str_int_def digit_char_def point_attrs_def float_str0_def

subsection \<open>Point markers in the U-shape builder\<close>

text \<open>
  Claim C10. In the loop of the face-on branch of \<^const>\<open>getUShapeRebarSVGData\<close>, a straight
  edge whose projected end points round to the same integer coordinate is drawn as a point
  marker; the step for it makes no test against the accumulated tree (it is the same for
  every tree), leaves \<^verbatim>\<open>is_rebar_visible\<close> as the earlier edges set it, and appends the
  marker exactly when they set it.
\<close>

theorem ushape_point_edge_never_tested:
  assumes "geomType e = ''Line''"
    and "same_rounded_point (edge_p1 K view_plane e) (edge_p2 K view_plane e)"
  shows "foldl (ushape_edge_step K F fac rebar view_plane tree) st0 (before @ [e]) =
           (case foldl (ushape_edge_step K F fac rebar view_plane tree) st0 before of
              (frag, vis) \<Rightarrow>
                if vis
                then (append_child frag
                        (getPointSVG F (edge_p1 K view_plane e) (fac * Diameter_Value rebar)), True)
                else (frag, False))
         \<and> ushape_edge_step K F fac rebar view_plane tree' st e =
           ushape_edge_step K F fac rebar view_plane tree st e"
proof -
  have drawn: "drawn_edge e" using assms(1) by (simp add: drawn_edge_def)
  have not_novel: "\<And>t. \<not> ushape_edge_novel K F rebar view_plane t e"
    using assms by (simp add: ushape_edge_novel_def Let_def)
  have svg: "ushape_edge_svg K F fac rebar view_plane e =
      getPointSVG F (edge_p1 K view_plane e) (fac * Diameter_Value rebar)"
    using assms by (simp add: ushape_edge_svg_def Let_def)
  have step: "\<And>t frag vis. ushape_edge_step K F fac rebar view_plane t (frag, vis) e =
      (if vis
       then (append_child frag
               (getPointSVG F (edge_p1 K view_plane e) (fac * Diameter_Value rebar)), True)
       else (frag, False))"
    using drawn not_novel svg by (simp add: ushape_edge_step_drawn)
  have loop: "foldl (ushape_edge_step K F fac rebar view_plane tree) st0 (before @ [e]) =
      ushape_edge_step K F fac rebar view_plane tree
        (foldl (ushape_edge_step K F fac rebar view_plane tree) st0 before) e"
    by simp
  have first: "foldl (ushape_edge_step K F fac rebar view_plane tree) st0 (before @ [e]) =
           (case foldl (ushape_edge_step K F fac rebar view_plane tree) st0 before of
              (frag, vis) \<Rightarrow>
                if vis
                then (append_child frag
                        (getPointSVG F (edge_p1 K view_plane e) (fac * Diameter_Value rebar)), True)
                else (frag, False))"
    unfolding loop
    by (cases "foldl (ushape_edge_step K F fac rebar view_plane tree) st0 before") (simp add: step)
  have second: "ushape_edge_step K F fac rebar view_plane tree' st e =
           ushape_edge_step K F fac rebar view_plane tree st e"
    by (cases st) (simp add: step)
  show ?thesis using first second by simp
qed

theorem ushape_point_edge_never_tested_witness:
  "geomType short_piece = ''Line''
   \<and> same_rounded_point (edge_p1 K0 top_view short_piece) (edge_p2 K0 top_view short_piece)
   \<and> foldl (ushape_edge_step K0 F0 (1 / 2) (flat_rebar ''U1'' ''UShapeRebar'' short_wire) top_view
              empty_tree)
        (Element ''g'' [(''id'', ''U1'')] [], False)
        ([line_edge (Vector 0 0 0) (Vector 100 0 0)] @ [short_piece]) =
      (Element ''g'' [(''id'', ''U1'')]
         [getLineSVG F0 (Vector 0 0 0) (Vector 100 0 0), getPointSVG F0 (Vector 100 0 0) 5], True)
   \<and> foldl (ushape_edge_step K0 F0 (1 / 2) (flat_rebar ''U1'' ''UShapeRebar'' short_wire) top_view
              empty_tree)
        (Element ''g'' [(''id'', ''U1'')] [], False) ([] @ [short_piece]) =
      (Element ''g'' [(''id'', ''U1'')] [], False)"
proof -
  have h1: "geomType short_piece = ''Line''" by (simp add: short_piece_def)
  have p2: "py_round (2/5) = 0" by (simp add: py_round_def Let_def)
  have h2: "same_rounded_point (edge_p1 K0 top_view short_piece) (edge_p2 K0 top_view short_piece)"
    by (simp add: short_piece_def same_rounded_point_def p2)
  have pre: "foldl (ushape_edge_step K0 F0 (1 / 2) (flat_rebar ''U1'' ''UShapeRebar'' short_wire)
                 top_view empty_tree)
        (Element ''g'' [(''id'', ''U1'')] [], False) [line_edge (Vector 0 0 0) (Vector 100 0 0)] =
      (Element ''g'' [(''id'', ''U1'')] [getLineSVG F0 (Vector 0 0 0) (Vector 100 0 0)], True)"
    by (simp add: ushape_edge_step_drawn ushape_edge_novel_def ushape_edge_svg_def Let_def
        same_rounded_point_def append_child_def empty_tree_def find_path_d_def)
  have d: "Diameter_Value (flat_rebar ''U1'' ''UShapeRebar'' short_wire) = 10"
    by (simp add: flat_rebar_def)
  have e1: "edge_p1 K0 top_view short_piece = Vector 100 0 0" by (simp add: short_piece_def)
  note with_line = ushape_point_edge_never_tested [OF h1 h2, of F0 "1 / 2"
        "flat_rebar ''U1'' ''UShapeRebar'' short_wire" empty_tree
        "(Element ''g'' [(''id'', ''U1'')] [], False)"
        "[line_edge (Vector 0 0 0) (Vector 100 0 0)]", THEN conjunct1]
  note alone = ushape_point_edge_never_tested [OF h1 h2, of F0 "1 / 2"
        "flat_rebar ''U1'' ''UShapeRebar'' short_wire" empty_tree
        "(Element ''g'' [(''id'', ''U1'')] [], False)" "[]", THEN conjunct1]
  have c1: "foldl (ushape_edge_step K0 F0 (1 / 2) (flat_rebar ''U1'' ''UShapeRebar'' short_wire)
              top_view empty_tree)
        (Element ''g'' [(''id'', ''U1'')] [], False)
        ([line_edge (Vector 0 0 0) (Vector 100 0 0)] @ [short_piece]) =
      (Element ''g'' [(''id'', ''U1'')]
         [getLineSVG F0 (Vector 0 0 0) (Vector 100 0 0), getPointSVG F0 (Vector 100 0 0) 5], True)"
    unfolding with_line pre by (simp add: d e1 append_child_def)
  have c2: "foldl (ushape_edge_step K0 F0 (1 / 2) (flat_rebar ''U1'' ''UShapeRebar'' short_wire)
              top_view empty_tree)
        (Element ''g'' [(''id'', ''U1'')] [], False) ([] @ [short_piece]) =
      (Element ''g'' [(''id'', ''U1'')] [], False)"
    unfolding alone by simp
  show ?thesis by (intro conjI h1 h2 c1 c2)
qed

end
